theory Spec2Isabelle
  imports Complex_Main
begin

section \<open>JavaScript values\<close>

text \<open>
  The values that travel through \<^verbatim>\<open>src/index.ts\<close>. A request body that
  \<^verbatim>\<open>request.json()\<close> has parsed is a JSON value; reading a property that an
  object does not have gives \<^verbatim>\<open>undefined\<close>. The TypeScript annotations
  (\<^verbatim>\<open>as { email: string; amount: number; description: string }\<close>) are erased
  at run time, so a field can hold any JSON value. A number is identified by its value
  (both zeros are \<open>JNum 0\<close>); an object is the list of its own properties, each
  name once.
\<close>

datatype jsval =
    JUndefined
  | JNull
  | JBool bool
  | JNum rat
  | JStr string
  | JArr "jsval list"
  | JObj "(string \<times> jsval) list"

text \<open>ToBoolean: what \<^verbatim>\<open>!x\<close> and \<^verbatim>\<open>x || y\<close> test.\<close>

fun truthy :: "jsval \<Rightarrow> bool" where
  "truthy JUndefined = False"
| "truthy JNull = False"
| "truthy (JBool b) = b"
| "truthy (JNum x) = (x \<noteq> 0)"
| "truthy (JStr s) = (s \<noteq> [])"
| "truthy (JArr xs) = True"
| "truthy (JObj kvs) = True"

datatype jserror = TypeError | SyntaxError

text \<open>
  \<^verbatim>\<open>const { email, amount, description } = v\<close>: destructuring \<^verbatim>\<open>null\<close>
  (or \<^verbatim>\<open>undefined\<close>) throws a TypeError; a property that is missing, and any
  of these three properties of a boolean, number, string or array, is
  \<^verbatim>\<open>undefined\<close>.
\<close>

definition get_property :: "(string \<times> jsval) list \<Rightarrow> string \<Rightarrow> jsval" where
  "get_property kvs k = (case map_of kvs k of None \<Rightarrow> JUndefined | Some v \<Rightarrow> v)"

fun destructure_body :: "jsval \<Rightarrow> jserror + (jsval \<times> jsval \<times> jsval)" where
  "destructure_body JUndefined = Inl TypeError"
| "destructure_body JNull = Inl TypeError"
| "destructure_body (JObj kvs) =
     Inr (get_property kvs ''email'', get_property kvs ''amount'', get_property kvs ''description'')"
| "destructure_body v = Inr (JUndefined, JUndefined, JUndefined)"

section \<open>The Durable Object: MyDurableObject\<close>

subsection \<open>Stored values\<close>

text \<open>
  \<^verbatim>\<open>interface DomainOffer\<close>. The timestamp is the clock reading
  \<^verbatim>\<open>new Date().toISOString()\<close> of the call, an input of the model.
\<close>

record DomainOffer =
  email :: jsval
  amount :: jsval
  description :: jsval
  timestamp :: string

text \<open>\<^verbatim>\<open>Omit<DomainOffer, 'timestamp'>\<close>, the argument of submitDomainOffer.\<close>

record offer_input =
  in_email :: jsval
  in_amount :: jsval
  in_description :: jsval

text \<open>
  The numbers that trackDomainRequest writes. A JavaScript number is an IEEE double:
  \<open>Count n\<close> is the double of value \<open>n\<close>, and \<open>NaN\<close> is not-a-number.
  \<^verbatim>\<open>requests++\<close> adds one and rounds to the nearest double, ties to the
  even significand. Below \<open>2 ^ 53\<close> the sum is exact. From \<open>2 ^ 53\<close> to
  \<open>2 ^ 54\<close> the doubles are the even numbers, \<open>n + 1\<close> lies halfway between
  \<open>n\<close> and \<open>n + 2\<close>, and the one whose significand \<open>n div 2\<close> is even is
  taken: \<open>2 ^ 53\<close> stays, \<open>2 ^ 53 + 2\<close> becomes \<open>2 ^ 53 + 4\<close>. From
  \<open>2 ^ 54\<close> on the doubles are at least 4 apart and \<open>n + 1\<close> rounds back to
  \<open>n\<close>. Counting up from zero never leaves the range \<open>0 .. 2 ^ 53\<close>.
\<close>

datatype number = NaN | Count nat

definition MAX_EXACT :: nat where
  "MAX_EXACT = 2 ^ 53"

fun js_increment :: "number \<Rightarrow> number" where
  "js_increment NaN = NaN"
| "js_increment (Count n) =
     (if n < MAX_EXACT then Count (n + 1)
      else if n < 2 * MAX_EXACT \<and> odd (n div 2) then Count (n + 2)
      else Count n)"

text \<open>
  What the object puts under a key: a number (trackDomainRequest) or an array of
  offers (submitDomainOffer). \<^verbatim>\<open>storage.get<T>\<close> does not check \<open>T\<close>:
  it returns whatever was stored.
\<close>

datatype stored = SNum number | SOffers "DomainOffer list"

fun truthy_stored :: "stored \<Rightarrow> bool" where
  "truthy_stored (SNum NaN) = False"
| "truthy_stored (SNum (Count n)) = (n \<noteq> 0)"
| "truthy_stored (SOffers xs) = True"

text \<open>\<^verbatim>\<open>(await get(k)) || d\<close>: an absent key reads as \<^verbatim>\<open>undefined\<close>.\<close>

definition or_default :: "stored option \<Rightarrow> stored \<Rightarrow> stored" where
  "or_default v d = (case v of None \<Rightarrow> d | Some x \<Rightarrow> if truthy_stored x then x else d)"

text \<open>
  ToNumber, applied by \<^verbatim>\<open>++\<close>. An array converts through its string: the empty
  array is \<^verbatim>\<open>""\<close>, hence 0; an array of offer objects is
  \<^verbatim>\<open>"[object Object],..."\<close>, hence NaN.
\<close>

fun to_number :: "stored \<Rightarrow> number" where
  "to_number (SNum c) = c"
| "to_number (SOffers []) = Count 0"
| "to_number (SOffers (x # xs)) = NaN"

subsection \<open>Storage\<close>

type_synonym storage = "string \<rightharpoonup> stored"

definition storage_key :: "string \<Rightarrow> string" where
  "storage_key domain = ''domain:'' @ domain"

definition storage_get :: "string \<Rightarrow> storage \<Rightarrow> stored option \<times> storage" where
  "storage_get k s = (s k, s)"

definition storage_put :: "string \<Rightarrow> stored \<Rightarrow> storage \<Rightarrow> storage" where
  "storage_put k v s = s(k \<mapsto> v)"

subsection \<open>Methods\<close>

record track_result =
  tr_domain :: string
  tr_requests :: number
  tr_timestamp :: string

record submit_result =
  sr_domain :: string
  sr_offer :: DomainOffer
  sr_totalOffers :: nat

text \<open>
  Every method takes the clock reading \<open>now\<close> where it reads the clock, and the
  storage, and returns its result with the storage it leaves.
\<close>

definition trackDomainRequest :: "string \<Rightarrow> string \<Rightarrow> storage \<Rightarrow> track_result \<times> storage" where
  "trackDomainRequest domain now s =
     (let (v, s1) = storage_get (storage_key domain) s;
          requests = or_default v (SNum (Count 0));
          requests' = js_increment (to_number requests);
          s2 = storage_put (storage_key domain) (SNum requests') s1
      in (\<lparr>tr_domain = domain, tr_requests = requests', tr_timestamp = now\<rparr>, s2))"

definition getDomainRequests :: "string \<Rightarrow> storage \<Rightarrow> stored \<times> storage" where
  "getDomainRequests domain s =
     (let (v, s1) = storage_get (storage_key domain) s
      in (or_default v (SNum (Count 0)), s1))"

text \<open>
  \<^verbatim>\<open>{ ...offer, timestamp: new Date().toISOString() }\<close> is \<open>new_offer\<close>.
  \<^verbatim>\<open>offers.push(newOffer)\<close> on a number throws
  \<^verbatim>\<open>TypeError: offers.push is not a function\<close>, before the put.
\<close>

definition new_offer :: "offer_input \<Rightarrow> string \<Rightarrow> DomainOffer" where
  "new_offer offer now =
     \<lparr>email = in_email offer, amount = in_amount offer,
      description = in_description offer, timestamp = now\<rparr>"

definition submitDomainOffer ::
  "string \<Rightarrow> offer_input \<Rightarrow> string \<Rightarrow> storage \<Rightarrow> (jserror + submit_result) \<times> storage" where
  "submitDomainOffer domain offer now s =
     (let (v, s1) = storage_get (storage_key domain) s;
          offers = or_default v (SOffers []);
          newOffer = new_offer offer now
      in case offers of
           SNum c \<Rightarrow> (Inl TypeError, s1)
         | SOffers xs \<Rightarrow>
             (let offers' = xs @ [newOffer];
                  s2 = storage_put (storage_key domain) (SOffers offers') s1
              in (Inr \<lparr>sr_domain = domain, sr_offer = newOffer,
                        sr_totalOffers = length offers'\<rparr>, s2)))"

definition getDomainOffers :: "string \<Rightarrow> storage \<Rightarrow> stored \<times> storage" where
  "getDomainOffers domain s =
     (let (v, s1) = storage_get (storage_key domain) s
      in (or_default v (SOffers []), s1))"

section \<open>The Worker: the fetch handler\<close>

subsection \<open>Strings\<close>

text \<open>
  \<^verbatim>\<open>String.prototype.split\<close> with a separator of one character: the pieces
  between the separators, so that a string with \<open>k\<close> separators has \<open>k + 1\<close>
  pieces, some of them possibly empty.
\<close>

fun js_split :: "char \<Rightarrow> string \<Rightarrow> string list" where
  "js_split sep [] = [[]]"
| "js_split sep (c # cs) =
     (if c = sep then [] # js_split sep cs
      else (case js_split sep cs of [] \<Rightarrow> [[c]] | w # ws \<Rightarrow> (c # w) # ws))"

definition startsWith :: "string \<Rightarrow> string \<Rightarrow> bool" where
  "startsWith s p = (take (length p) s = p)"

text \<open>\<^verbatim>\<open>xs[i]\<close>: \<^verbatim>\<open>undefined\<close> (here \<open>None\<close>) past the end.\<close>

definition element_at :: "'a list \<Rightarrow> nat \<Rightarrow> 'a option" where
  "element_at xs i = (if i < length xs then Some (xs ! i) else None)"

subsection \<open>Requests, responses, environment\<close>

text \<open>
  What the handler reads of a request: its method, the value of
  \<^verbatim>\<open>request.headers.get('Authorization')\<close> (\<open>None\<close> for
  \<^verbatim>\<open>null\<close>), the value of \<^verbatim>\<open>url.searchParams.get('domain')\<close>, and
  the outcome of \<^verbatim>\<open>request.json()\<close>: \<open>None\<close> when it rejects (the body is
  not JSON), the parsed value otherwise.
\<close>

record request =
  req_method :: string
  req_authorization :: "string option"
  req_domain :: "string option"
  req_json :: "jsval option"

text \<open>The values handed to \<^verbatim>\<open>JSON.stringify\<close>.\<close>

datatype payload =
    SubmitPayload submit_result
  | OffersPayload string stored

text \<open>
  A response body: \<^verbatim>\<open>null\<close>, a text, or the JSON text of a payload
  (\<open>JsonBody p\<close> stands for \<^verbatim>\<open>JSON.stringify(p)\<close>). The headers of a
  response are the ones the handler passes to \<^verbatim>\<open>new Response\<close>, in order;
  the status is 200 where the handler passes none.
\<close>

datatype body = NullBody | TextBody string | JsonBody payload

record response =
  status :: nat
  body :: body
  headers :: "(string \<times> string) list"

record env =
  AUTH_TOKEN :: string

text \<open>The binding of \<^verbatim>\<open>wrangler.toml\<close>.\<close>

definition wrangler_env :: env where
  "wrangler_env = \<lparr>AUTH_TOKEN = ''YELLOW_BEAR_SUN''\<rparr>"

definition corsHeaders :: "(string \<times> string) list" where
  "corsHeaders =
     [(''Access-Control-Allow-Origin'', ''https://agi-2025.com''),
      (''Access-Control-Allow-Methods'', ''GET,HEAD,POST,OPTIONS''),
      (''Access-Control-Allow-Headers'', ''Content-Type,Authorization''),
      (''Access-Control-Max-Age'', ''86400'')]"

text \<open>\<^verbatim>\<open>{ ...corsHeaders, 'Content-Type': 'application/json' }\<close>\<close>

definition jsonHeaders :: "(string \<times> string) list" where
  "jsonHeaders = corsHeaders @ [(''Content-Type'', ''application/json'')]"

subsection \<open>Durable Object instances and stubs\<close>

text \<open>
  \<^verbatim>\<open>env.MY_DURABLE_OBJECT\<close>: one object, with a storage of its own, for every
  name; it exists from the first reference on, with an empty storage. A call through a
  stub runs the method on that object's storage. The world also keeps the list of the
  calls made through stubs, in order, so that "the handler calls" and "the handler does
  not call" can be stated.
\<close>

datatype rpc =
    SubmitDomainOffer string string offer_input
  | GetDomainOffers string string

record world =
  stores :: "string \<Rightarrow> storage"
  calls :: "rpc list"

definition idFromName :: "string \<Rightarrow> string" where
  "idFromName domain = ''domain-offers:'' @ domain"

definition stub_submitDomainOffer ::
  "string \<Rightarrow> string \<Rightarrow> offer_input \<Rightarrow> string \<Rightarrow> world \<Rightarrow> (jserror + submit_result) \<times> world" where
  "stub_submitDomainOffer name domain offer now w =
     (let (r, s') = submitDomainOffer domain offer now (stores w name)
      in (r, \<lparr>stores = (stores w)(name := s'),
               calls = calls w @ [SubmitDomainOffer name domain offer]\<rparr>))"

definition stub_getDomainOffers :: "string \<Rightarrow> string \<Rightarrow> world \<Rightarrow> stored \<times> world" where
  "stub_getDomainOffers name domain w =
     (let (r, s') = getDomainOffers domain (stores w name)
      in (r, \<lparr>stores = (stores w)(name := s'),
               calls = calls w @ [GetDomainOffers name domain]\<rparr>))"

subsection \<open>fetch\<close>

text \<open>
  The authorization test of the handler, on the value of the Authorization header:
  \<^verbatim>\<open>!authToken || !authToken.startsWith('Bearer ') ||
  authToken.split(' ')[1] !== env.AUTH_TOKEN\<close>.
\<close>

definition unauthorized :: "env \<Rightarrow> string option \<Rightarrow> bool" where
  "unauthorized e authToken =
     (case authToken of
        None \<Rightarrow> True
      | Some h \<Rightarrow>
          h = [] \<or> \<not> startsWith h ''Bearer '' \<or>
          element_at (js_split CHR '' '' h) 1 \<noteq> Some (AUTH_TOKEN e))"

definition unauthorized_response :: response where
  "unauthorized_response =
     \<lparr>status = 401, body = TextBody ''Unauthorized'', headers = jsonHeaders\<rparr>"

definition domain_required_response :: response where
  "domain_required_response =
     \<lparr>status = 400, body = TextBody ''Domain parameter is required'', headers = []\<rparr>"

definition fields_required_response :: response where
  "fields_required_response =
     \<lparr>status = 400, body = TextBody ''Email and amount are required'', headers = corsHeaders\<rparr>"

definition invalid_body_response :: response where
  "invalid_body_response =
     \<lparr>status = 400, body = TextBody ''Invalid request body'', headers = corsHeaders\<rparr>"

text \<open>
  The POST branch: everything inside \<^verbatim>\<open>try\<close>. A rejected
  \<^verbatim>\<open>request.json()\<close>, a failed destructuring and an exception of the stub
  call all end in the \<^verbatim>\<open>catch\<close>.
\<close>

definition post_offer :: "string \<Rightarrow> string \<Rightarrow> request \<Rightarrow> world \<Rightarrow> response \<times> world" where
  "post_offer domain now request w =
     (case req_json request of
        None \<Rightarrow> (invalid_body_response, w)
      | Some parsed \<Rightarrow>
          (case destructure_body parsed of
             Inl err \<Rightarrow> (invalid_body_response, w)
           | Inr (email_v, amount_v, description_v) \<Rightarrow>
               if \<not> truthy email_v \<or> \<not> truthy amount_v then (fields_required_response, w)
               else
                 (case stub_submitDomainOffer (idFromName domain) domain
                         \<lparr>in_email = email_v, in_amount = amount_v,
                           in_description = description_v\<rparr>
                         now w of
                    (Inl err, w') \<Rightarrow> (invalid_body_response, w')
                  | (Inr result, w') \<Rightarrow>
                      (\<lparr>status = 200, body = JsonBody (SubmitPayload result),
                        headers = jsonHeaders\<rparr>, w'))))"

definition fetch :: "env \<Rightarrow> string \<Rightarrow> request \<Rightarrow> world \<Rightarrow> response \<times> world" where
  "fetch e now request w =
     (if req_method request = ''OPTIONS'' then
        (\<lparr>status = 200, body = NullBody, headers = corsHeaders\<rparr>, w)
      else if unauthorized e (req_authorization request) then (unauthorized_response, w)
      else
        (case req_domain request of
           None \<Rightarrow> (domain_required_response, w)
         | Some domain \<Rightarrow>
             if domain = [] then (domain_required_response, w)
             else if req_method request = ''POST'' then post_offer domain now request w
             else
               (let (offers, w') = stub_getDomainOffers (idFromName domain) domain w
                in (\<lparr>status = 200, body = JsonBody (OffersPayload domain offers),
                     headers = jsonHeaders\<rparr>, w'))))"

section \<open>Sequences of calls, and the words of the specification\<close>

text \<open>
  Successive calls on one object, each with its own clock reading: the results in
  order, and the storage after the last call.
\<close>

fun submit_all ::
  "string \<Rightarrow> (offer_input \<times> string) list \<Rightarrow> storage \<Rightarrow> (jserror + submit_result) list \<times> storage" where
  "submit_all domain [] s = ([], s)"
| "submit_all domain ((offer, now) # rest) s =
     (let (r, s') = submitDomainOffer domain offer now s;
          (rs, s'') = submit_all domain rest s'
      in (r # rs, s''))"

fun track_all :: "string \<Rightarrow> string list \<Rightarrow> storage \<Rightarrow> track_result list \<times> storage" where
  "track_all domain [] s = ([], s)"
| "track_all domain (now # rest) s =
     (let (r, s') = trackDomainRequest domain now s;
          (rs, s'') = track_all domain rest s'
      in (r # rs, s''))"

text \<open>The offer that the call with input \<open>(offer, now)\<close> is to append.\<close>

definition stamped :: "offer_input \<times> string \<Rightarrow> DomainOffer" where
  "stamped p = new_offer (fst p) (snd p)"

text \<open>
  The token of an Authorization header in the words of the specification: the header
  starts with \<^verbatim>\<open>Bearer \<close>, and the token is what stands between the first
  space and the second space, or the end of the header.
\<close>

definition between_spaces :: "string \<Rightarrow> string" where
  "between_spaces h =
     takeWhile (\<lambda>c. c \<noteq> CHR '' '') (drop 1 (dropWhile (\<lambda>c. c \<noteq> CHR '' '') h))"

definition bearer_token :: "string \<Rightarrow> string option" where
  "bearer_token h = (if take 7 h = ''Bearer '' then Some (between_spaces h) else None)"

text \<open>A world in which no object has stored anything and no call has been made.\<close>

definition empty_world :: world where
  "empty_world = \<lparr>stores = (\<lambda>name. Map.empty), calls = []\<rparr>"

section \<open>Properties of the Durable Object\<close>

subsection \<open>Appending offers\<close>

text \<open>
  One call, on a key that is absent, holds a falsy number or holds an array: the array
  read is kept, the new offer is put behind it, and the whole array is written back.
\<close>

lemma submit_step:
  "or_default (s (storage_key d)) (SOffers []) = SOffers xs \<Longrightarrow>
   submitDomainOffer d offer now s =
     (Inr \<lparr>sr_domain = d, sr_offer = new_offer offer now, sr_totalOffers = Suc (length xs)\<rparr>,
      s(storage_key d \<mapsto> SOffers (xs @ [new_offer offer now])))"
  by (simp add: submitDomainOffer_def storage_get_def storage_put_def Let_def)

lemma or_default_offers: "or_default (Some (SOffers xs)) dflt = SOffers xs"
  by (simp add: or_default_def)

lemma submit_all_from:
  "or_default (s (storage_key d)) (SOffers []) = SOffers xs \<Longrightarrow>
   submit_all d ins s =
     (map (\<lambda>i. Inr \<lparr>sr_domain = d, sr_offer = stamped (ins ! i),
                      sr_totalOffers = Suc (length xs + i)\<rparr>) [0..<length ins],
      if ins = [] then s else s(storage_key d \<mapsto> SOffers (xs @ map stamped ins)))"
proof (induction ins arbitrary: s xs)
  case Nil
  then show ?case by simp
next
  case (Cons p ins)
  obtain offer now where p: "p = (offer, now)" by (cases p)
  let ?s' = "s(storage_key d \<mapsto> SOffers (xs @ [new_offer offer now]))"
  have step: "submitDomainOffer d offer now s =
     (Inr \<lparr>sr_domain = d, sr_offer = new_offer offer now, sr_totalOffers = Suc (length xs)\<rparr>, ?s')"
    by (rule submit_step) (rule Cons.prems)
  have IH: "submit_all d ins ?s' =
     (map (\<lambda>i. Inr \<lparr>sr_domain = d, sr_offer = stamped (ins ! i),
                      sr_totalOffers = Suc (length (xs @ [new_offer offer now]) + i)\<rparr>) [0..<length ins],
      if ins = [] then ?s' else ?s'(storage_key d \<mapsto> SOffers ((xs @ [new_offer offer now]) @ map stamped ins)))"
    by (rule Cons.IH) (simp add: or_default_offers)
  have shift: "map (\<lambda>i. Inr \<lparr>sr_domain = d, sr_offer = stamped ((p # ins) ! i),
                      sr_totalOffers = Suc (length xs + i)\<rparr>) [0..<length (p # ins)]
     = Inr \<lparr>sr_domain = d, sr_offer = stamped p, sr_totalOffers = Suc (length xs)\<rparr> #
       map (\<lambda>i. Inr \<lparr>sr_domain = d, sr_offer = stamped (ins ! i),
                      sr_totalOffers = Suc (length (xs @ [new_offer offer now]) + i)\<rparr>) [0..<length ins]"
    by (simp add: upt_rec [of 0] map_Suc_upt [symmetric] del: upt_Suc)
  show ?case
    unfolding shift
    by (cases "ins = []") (simp_all add: p step IH stamped_def fun_eq_iff)
qed

subsection \<open>Counting requests\<close>

text \<open>
  A run of calls from a number \<open>c\<close>: every call adds one until the count reaches
  \<open>MAX_EXACT\<close>, where it stays.
\<close>

lemma track_step:
  "to_number (or_default (s (storage_key d)) (SNum (Count 0))) = c \<Longrightarrow>
   trackDomainRequest d now s =
     (\<lparr>tr_domain = d, tr_requests = js_increment c, tr_timestamp = now\<rparr>,
      s(storage_key d \<mapsto> SNum (js_increment c)))"
  by (simp add: trackDomainRequest_def storage_get_def storage_put_def Let_def)

lemma or_default_count: "to_number (or_default (Some (SNum (Count n))) (SNum (Count 0))) = Count n"
  by (simp add: or_default_def)

lemma js_increment_upto:
  "n \<le> MAX_EXACT \<Longrightarrow> js_increment (Count n) = Count (if n < MAX_EXACT then n + 1 else n)"
  by (auto simp: MAX_EXACT_def)

lemma track_all_from:
  "to_number (or_default (s (storage_key d)) (SNum (Count 0))) = Count c \<Longrightarrow> c \<le> MAX_EXACT \<Longrightarrow>
   track_all d nows s =
     (map (\<lambda>i. \<lparr>tr_domain = d, tr_requests = Count (min (Suc (c + i)) (max c MAX_EXACT)),
                  tr_timestamp = nows ! i\<rparr>) [0..<length nows],
      if nows = [] then s
      else s(storage_key d \<mapsto> SNum (Count (min (c + length nows) (max c MAX_EXACT)))))"
proof (induction nows arbitrary: s c)
  case Nil
  then show ?case by simp
next
  case (Cons now nows)
  define c' where "c' = (if c < MAX_EXACT then c + 1 else c)"
  let ?s' = "s(storage_key d \<mapsto> SNum (Count c'))"
  have step: "trackDomainRequest d now s =
     (\<lparr>tr_domain = d, tr_requests = Count c', tr_timestamp = now\<rparr>, ?s')"
    using track_step [of s d "Count c" now] Cons.prems
    by (simp add: c'_def js_increment_upto del: js_increment.simps)
  have below: "c' \<le> MAX_EXACT"
    using Cons.prems(2) by (simp add: c'_def)
  have IH: "track_all d nows ?s' =
     (map (\<lambda>i. \<lparr>tr_domain = d, tr_requests = Count (min (Suc (c' + i)) (max c' MAX_EXACT)),
                  tr_timestamp = nows ! i\<rparr>) [0..<length nows],
      if nows = [] then ?s'
      else ?s'(storage_key d \<mapsto> SNum (Count (min (c' + length nows) (max c' MAX_EXACT)))))"
    by (rule Cons.IH) (simp_all add: or_default_count below)
  have m1: "min (Suc (Suc (c + i))) (max c MAX_EXACT) = min (Suc (c' + i)) (max c' MAX_EXACT)" for i
    by (auto simp: c'_def min_def max_def)
  have m2: "min (Suc (c + n)) (max c MAX_EXACT) = min (c' + n) (max c' MAX_EXACT)" for n
    by (auto simp: c'_def min_def max_def)
  have m0: "min (Suc c) (max c MAX_EXACT) = c'"
    by (auto simp: c'_def min_def max_def)
  have shift: "map (\<lambda>i. \<lparr>tr_domain = d, tr_requests = Count (min (Suc (c + i)) (max c MAX_EXACT)),
                  tr_timestamp = (now # nows) ! i\<rparr>) [0..<length (now # nows)]
     = \<lparr>tr_domain = d, tr_requests = Count c', tr_timestamp = now\<rparr> #
       map (\<lambda>i. \<lparr>tr_domain = d, tr_requests = Count (min (Suc (c' + i)) (max c' MAX_EXACT)),
                  tr_timestamp = nows ! i\<rparr>) [0..<length nows]"
    by (simp add: upt_rec [of 0] map_Suc_upt [symmetric] m1 m0 del: upt_Suc)
  show ?case
    unfolding shift
    by (cases "nows = []") (simp_all add: step IH m2 m0 fun_eq_iff)
qed


subsection \<open>What the reads return\<close>

lemma getDomainOffers_value:
  "fst (getDomainOffers d s) = or_default (s (storage_key d)) (SOffers [])"
  by (simp add: getDomainOffers_def storage_get_def)

lemma getDomainRequests_value:
  "fst (getDomainRequests d s) = or_default (s (storage_key d)) (SNum (Count 0))"
  by (simp add: getDomainRequests_def storage_get_def)

subsection \<open>The offer log\<close>

text \<open>
  C1. For every domain whose storage entry is absent and every sequence of successive
  submitDomainOffer calls on it: the i-th call returns its own offer, carrying the
  email, amount and description of its input, with totalOffers = i; the stored array
  after the calls is the list of all offers in submission order, which getDomainOffers
  returns; and a call on a stored array keeps the prior entries as they are, in order,
  and appends exactly one offer.
\<close>

theorem sequential_offers_are_kept:
  assumes "s (storage_key d) = None"
  shows "submit_all d ins s =
           (map (\<lambda>i. Inr \<lparr>sr_domain = d, sr_offer = stamped (ins ! i), sr_totalOffers = Suc i\<rparr>)
              [0..<length ins],
            if ins = [] then s else s(storage_key d \<mapsto> SOffers (map stamped ins)))
       \<and> fst (getDomainOffers d (snd (submit_all d ins s))) = SOffers (map stamped ins)
       \<and> (s' (storage_key d) = Some (SOffers xs) \<longrightarrow>
            submitDomainOffer d offer now s' =
              (Inr \<lparr>sr_domain = d, sr_offer = new_offer offer now,
                    sr_totalOffers = length xs + 1\<rparr>,
               s'(storage_key d \<mapsto> SOffers (xs @ [new_offer offer now]))))
       \<and> email (new_offer offer now) = in_email offer
       \<and> amount (new_offer offer now) = in_amount offer
       \<and> description (new_offer offer now) = in_description offer"
proof -
  have start: "or_default (s (storage_key d)) (SOffers []) = SOffers []"
    using assms by (simp add: or_default_def)
  have run: "submit_all d ins s =
           (map (\<lambda>i. Inr \<lparr>sr_domain = d, sr_offer = stamped (ins ! i), sr_totalOffers = Suc i\<rparr>)
              [0..<length ins],
            if ins = [] then s else s(storage_key d \<mapsto> SOffers (map stamped ins)))"
    using submit_all_from [of s d "[]" ins] start by simp
  have listing: "fst (getDomainOffers d (snd (submit_all d ins s))) = SOffers (map stamped ins)"
    unfolding run getDomainOffers_value using assms
    by (simp add: or_default_def)
  have one: "s' (storage_key d) = Some (SOffers xs) \<longrightarrow>
            submitDomainOffer d offer now s' =
              (Inr \<lparr>sr_domain = d, sr_offer = new_offer offer now,
                    sr_totalOffers = length xs + 1\<rparr>,
               s'(storage_key d \<mapsto> SOffers (xs @ [new_offer offer now])))"
    using submit_step [of s' d xs offer now] by (simp add: or_default_offers)
  have fields: "email (new_offer offer now) = in_email offer
       \<and> amount (new_offer offer now) = in_amount offer
       \<and> description (new_offer offer now) = in_description offer"
    by (simp add: new_offer_def)
  from run listing one fields show ?thesis by blast
qed

text \<open>Two offers for example.com, in a storage that holds another key.\<close>

theorem sequential_offers_are_kept_witness:
  "[''domain:other.org'' \<mapsto> SNum (Count 3)] (storage_key ''example.com'') = None
   \<and> fst (getDomainOffers ''example.com''
        (snd (submit_all ''example.com''
           [(\<lparr>in_email = JStr ''a@b.com'', in_amount = JNum 500, in_description = JUndefined\<rparr>, ''t1''),
            (\<lparr>in_email = JStr ''c@d.org'', in_amount = JNum 7, in_description = JStr ''hi''\<rparr>, ''t2'')]
           [''domain:other.org'' \<mapsto> SNum (Count 3)])))
     = SOffers
         [\<lparr>email = JStr ''a@b.com'', amount = JNum 500, description = JUndefined, timestamp = ''t1''\<rparr>,
          \<lparr>email = JStr ''c@d.org'', amount = JNum 7, description = JStr ''hi'', timestamp = ''t2''\<rparr>]
   \<and> fst (submit_all ''example.com''
           [(\<lparr>in_email = JStr ''a@b.com'', in_amount = JNum 500, in_description = JUndefined\<rparr>, ''t1''),
            (\<lparr>in_email = JStr ''c@d.org'', in_amount = JNum 7, in_description = JStr ''hi''\<rparr>, ''t2'')]
           [''domain:other.org'' \<mapsto> SNum (Count 3)])
     = [Inr \<lparr>sr_domain = ''example.com'',
             sr_offer = \<lparr>email = JStr ''a@b.com'', amount = JNum 500, description = JUndefined,
                         timestamp = ''t1''\<rparr>,
             sr_totalOffers = 1\<rparr>,
        Inr \<lparr>sr_domain = ''example.com'',
             sr_offer = \<lparr>email = JStr ''c@d.org'', amount = JNum 7, description = JStr ''hi'',
                         timestamp = ''t2''\<rparr>,
             sr_totalOffers = 2\<rparr>]"
proof -
  have absent: "[''domain:other.org'' \<mapsto> SNum (Count 3)] (storage_key ''example.com'') = None"
    by (simp add: storage_key_def)
  note all = sequential_offers_are_kept
    [where s = "[''domain:other.org'' \<mapsto> SNum (Count 3)]" and d = "''example.com''"
       and ins = "[(\<lparr>in_email = JStr ''a@b.com'', in_amount = JNum 500, in_description = JUndefined\<rparr>, ''t1''),
                   (\<lparr>in_email = JStr ''c@d.org'', in_amount = JNum 7, in_description = JStr ''hi''\<rparr>, ''t2'')]",
     OF absent]
  note run = all [THEN conjunct1] and listing = all [THEN conjunct2, THEN conjunct1]
  show ?thesis
    using absent run listing
    by (simp add: stamped_def new_offer_def upt_rec del: submit_all.simps)
qed

subsection \<open>The request counter\<close>

text \<open>
  C5, amended. For every domain whose storage entry is absent and that only
  trackDomainRequest touches, and for n calls with n at most \<open>2 ^ 53\<close>: the i-th call
  returns count i, and getDomainRequests then returns n; getDomainRequests returns 0
  when the key is absent.
\<close>

theorem counting_below_MAX_EXACT:
  assumes "s (storage_key d) = None" and "length nows \<le> MAX_EXACT"
  shows "fst (track_all d nows s) =
           map (\<lambda>i. \<lparr>tr_domain = d, tr_requests = Count (Suc i), tr_timestamp = nows ! i\<rparr>)
             [0..<length nows]
       \<and> fst (getDomainRequests d (snd (track_all d nows s))) = SNum (Count (length nows))
       \<and> fst (getDomainRequests d s) = SNum (Count 0)"
proof -
  have start: "to_number (or_default (s (storage_key d)) (SNum (Count 0))) = Count 0"
    using assms(1) by (simp add: or_default_def)
  note run = track_all_from [of s d 0 nows, OF start le0]
  have results: "fst (track_all d nows s) =
           map (\<lambda>i. \<lparr>tr_domain = d, tr_requests = Count (Suc i), tr_timestamp = nows ! i\<rparr>)
             [0..<length nows]"
    unfolding run using assms(2) by (auto simp: min_def)
  have reading: "fst (getDomainRequests d (snd (track_all d nows s))) = SNum (Count (length nows))"
    unfolding run getDomainRequests_value using assms
    by (auto simp: or_default_def min_def)
  have absent: "fst (getDomainRequests d s) = SNum (Count 0)"
    unfolding getDomainRequests_value using assms(1) by (simp add: or_default_def)
  from results reading absent show ?thesis by blast
qed

text \<open>Three calls for example.com.\<close>

theorem counting_below_MAX_EXACT_witness:
  "[''domain:other.org'' \<mapsto> SNum (Count 3)] (storage_key ''example.com'') = None
   \<and> length [''t1'', ''t2'', ''t3''] \<le> MAX_EXACT
   \<and> fst (track_all ''example.com'' [''t1'', ''t2'', ''t3''] [''domain:other.org'' \<mapsto> SNum (Count 3)]) =
        [\<lparr>tr_domain = ''example.com'', tr_requests = Count 1, tr_timestamp = ''t1''\<rparr>,
         \<lparr>tr_domain = ''example.com'', tr_requests = Count 2, tr_timestamp = ''t2''\<rparr>,
         \<lparr>tr_domain = ''example.com'', tr_requests = Count 3, tr_timestamp = ''t3''\<rparr>]
   \<and> fst (getDomainRequests ''example.com''
          (snd (track_all ''example.com'' [''t1'', ''t2'', ''t3'']
                  [''domain:other.org'' \<mapsto> SNum (Count 3)]))) = SNum (Count 3)
   \<and> fst (getDomainRequests ''example.com'' [''domain:other.org'' \<mapsto> SNum (Count 3)])
       = SNum (Count 0)"
proof -
  have absent: "[''domain:other.org'' \<mapsto> SNum (Count 3)] (storage_key ''example.com'') = None"
    by (simp add: storage_key_def)
  have small: "length [''t1'', ''t2'', ''t3''] \<le> MAX_EXACT"
    by (simp add: MAX_EXACT_def)
  note all = counting_below_MAX_EXACT
    [where s = "[''domain:other.org'' \<mapsto> SNum (Count 3)]" and d = "''example.com''"
       and nows = "[''t1'', ''t2'', ''t3'']", OF absent small]
  show ?thesis
    using absent small all
    by (simp add: upt_rec del: track_all.simps)
qed

text \<open>
  C5 as stated fails past \<open>2 ^ 53\<close>: after \<open>2 ^ 53 + 1\<close> calls the counter reads
  \<open>2 ^ 53\<close>, since the double \<open>2 ^ 53\<close> plus one is \<open>2 ^ 53\<close> again.
\<close>

theorem counter_stops_at_MAX_EXACT:
  "fst (getDomainRequests ''example.com''
     (snd (track_all ''example.com'' (replicate (MAX_EXACT + 1) ''t'') Map.empty)))
   = SNum (Count MAX_EXACT)
   \<and> fst (getDomainRequests ''example.com''
     (snd (track_all ''example.com'' (replicate (MAX_EXACT + 1) ''t'') Map.empty)))
   \<noteq> SNum (Count (MAX_EXACT + 1))"
proof -
  have start: "to_number (or_default ((Map.empty :: storage) (storage_key ''example.com''))
                 (SNum (Count 0))) = Count 0"
    by (simp add: or_default_def)
  have pos: "0 < MAX_EXACT" by (simp add: MAX_EXACT_def)
  have nonempty: "replicate (MAX_EXACT + 1) ''t'' \<noteq> []" by simp
  have "snd (track_all ''example.com'' (replicate (MAX_EXACT + 1) ''t'') Map.empty)
          (storage_key ''example.com'') = Some (SNum (Count MAX_EXACT))"
    unfolding track_all_from [of Map.empty "''example.com''" 0, OF start le0]
    using nonempty by (simp del: replicate.simps replicate_Suc)
  then have "fst (getDomainRequests ''example.com''
       (snd (track_all ''example.com'' (replicate (MAX_EXACT + 1) ''t'') Map.empty)))
     = SNum (Count MAX_EXACT)"
    unfolding getDomainRequests_value using pos by (simp add: or_default_def)
  then show ?thesis by simp
qed

subsection \<open>Pure reads\<close>

text \<open>
  C9. getDomainRequests and getDomainOffers are pure reads: for every domain and every
  storage, the storage they leave is the storage they were given, at every key.
\<close>

theorem reads_leave_storage:
  "snd (getDomainRequests domain s) = s \<and> snd (getDomainOffers domain s) = s"
  by (simp add: getDomainRequests_def getDomainOffers_def storage_get_def)

subsection \<open>One key for the counter and the offers\<close>

text \<open>
  C2, amended. For every domain, the counter operations (trackDomainRequest,
  getDomainRequests) and the offer operations (submitDomainOffer, getDomainOffers) all
  read and write the single storage key "domain:<name>": they leave every other key as
  it is, their results depend on that key only, and trackDomainRequest writes its count
  there. Consequently a submitDomainOffer call on a key that holds a counter other than
  zero throws a TypeError and leaves the storage as it is (a stored 0 or NaN reads as
  no offers and is replaced by the one new offer), and a trackDomainRequest call on a
  key that holds an offer list replaces the list by a number (NaN when the list is not
  empty).
\<close>

theorem one_key_for_counter_and_offers:
  "storage_key d = ''domain:'' @ d
   \<and> (k \<noteq> storage_key d \<longrightarrow>
        snd (trackDomainRequest d now s) k = s k \<and> snd (getDomainRequests d s) k = s k
        \<and> snd (submitDomainOffer d offer now s) k = s k \<and> snd (getDomainOffers d s) k = s k)
   \<and> (s (storage_key d) = s' (storage_key d) \<longrightarrow>
        fst (trackDomainRequest d now s) = fst (trackDomainRequest d now s')
        \<and> fst (getDomainRequests d s) = fst (getDomainRequests d s')
        \<and> fst (submitDomainOffer d offer now s) = fst (submitDomainOffer d offer now s')
        \<and> fst (getDomainOffers d s) = fst (getDomainOffers d s'))
   \<and> snd (trackDomainRequest d now s) (storage_key d)
        = Some (SNum (tr_requests (fst (trackDomainRequest d now s))))
   \<and> (s (storage_key d) = Some (SNum (Count (Suc n))) \<longrightarrow>
        submitDomainOffer d offer now s = (Inl TypeError, s))
   \<and> (s (storage_key d) = Some (SNum NaN) \<or> s (storage_key d) = Some (SNum (Count 0)) \<longrightarrow>
        snd (submitDomainOffer d offer now s) (storage_key d) = Some (SOffers [new_offer offer now]))
   \<and> (s (storage_key d) = Some (SOffers xs) \<longrightarrow>
        snd (trackDomainRequest d now s) (storage_key d)
          = Some (SNum (if xs = [] then Count 1 else NaN)))"
proof -
  have key: "storage_key d = ''domain:'' @ d"
    by (simp add: storage_key_def)
  have frame: "k \<noteq> storage_key d \<longrightarrow>
        snd (trackDomainRequest d now s) k = s k \<and> snd (getDomainRequests d s) k = s k
        \<and> snd (submitDomainOffer d offer now s) k = s k \<and> snd (getDomainOffers d s) k = s k"
    by (simp add: trackDomainRequest_def getDomainRequests_def submitDomainOffer_def
        getDomainOffers_def storage_get_def storage_put_def Let_def split: stored.split)
  have reads: "s (storage_key d) = s' (storage_key d) \<longrightarrow>
        fst (trackDomainRequest d now s) = fst (trackDomainRequest d now s')
        \<and> fst (getDomainRequests d s) = fst (getDomainRequests d s')
        \<and> fst (submitDomainOffer d offer now s) = fst (submitDomainOffer d offer now s')
        \<and> fst (getDomainOffers d s) = fst (getDomainOffers d s')"
    by (simp add: trackDomainRequest_def getDomainRequests_def submitDomainOffer_def
        getDomainOffers_def storage_get_def storage_put_def Let_def split: stored.split)
  have writes: "snd (trackDomainRequest d now s) (storage_key d)
        = Some (SNum (tr_requests (fst (trackDomainRequest d now s))))"
    by (simp add: trackDomainRequest_def storage_get_def storage_put_def Let_def)
  have throws: "s (storage_key d) = Some (SNum (Count (Suc n))) \<longrightarrow>
        submitDomainOffer d offer now s = (Inl TypeError, s)"
    by (simp add: submitDomainOffer_def storage_get_def or_default_def)
  have falsy: "s (storage_key d) = Some (SNum NaN) \<or> s (storage_key d) = Some (SNum (Count 0)) \<longrightarrow>
        snd (submitDomainOffer d offer now s) (storage_key d) = Some (SOffers [new_offer offer now])"
    by (auto simp: submitDomainOffer_def storage_get_def storage_put_def or_default_def Let_def)
  have overwritten: "s (storage_key d) = Some (SOffers xs) \<longrightarrow>
        snd (trackDomainRequest d now s) (storage_key d)
          = Some (SNum (if xs = [] then Count 1 else NaN))"
    by (cases xs)
      (simp_all add: trackDomainRequest_def storage_get_def storage_put_def or_default_def
        MAX_EXACT_def Let_def)
  from key frame reads writes throws falsy overwritten show ?thesis by blast
qed

text \<open>
  A storage with a counter for example.com and another key; one with NaN; one with an
  offer.
\<close>

theorem one_key_for_counter_and_offers_witness:
  "''domain:other.org'' \<noteq> storage_key ''example.com''
   \<and> snd (submitDomainOffer ''example.com''
          \<lparr>in_email = JStr ''a@b.com'', in_amount = JNum 500, in_description = JUndefined\<rparr> ''t1''
          [''domain:other.org'' \<mapsto> SNum (Count 3), ''domain:example.com'' \<mapsto> SNum (Count (Suc 1))])
        ''domain:other.org'' = Some (SNum (Count 3))
   \<and> [''domain:other.org'' \<mapsto> SNum (Count 3), ''domain:example.com'' \<mapsto> SNum (Count (Suc 1))]
        (storage_key ''example.com'') = Some (SNum (Count (Suc 1)))
   \<and> submitDomainOffer ''example.com''
          \<lparr>in_email = JStr ''a@b.com'', in_amount = JNum 500, in_description = JUndefined\<rparr> ''t1''
          [''domain:other.org'' \<mapsto> SNum (Count 3), ''domain:example.com'' \<mapsto> SNum (Count (Suc 1))]
       = (Inl TypeError,
          [''domain:other.org'' \<mapsto> SNum (Count 3), ''domain:example.com'' \<mapsto> SNum (Count (Suc 1))])
   \<and> [''domain:other.org'' \<mapsto> SNum (Count 3), ''domain:example.com'' \<mapsto> SNum (Count (Suc 1))]
        (storage_key ''example.com'')
       = [''domain:example.com'' \<mapsto> SNum (Count (Suc 1))] (storage_key ''example.com'')
   \<and> fst (getDomainRequests ''example.com''
          [''domain:other.org'' \<mapsto> SNum (Count 3), ''domain:example.com'' \<mapsto> SNum (Count (Suc 1))])
       = fst (getDomainRequests ''example.com'' [''domain:example.com'' \<mapsto> SNum (Count (Suc 1))])
   \<and> [''domain:example.com'' \<mapsto> SNum NaN] (storage_key ''example.com'') = Some (SNum NaN)
   \<and> snd (submitDomainOffer ''example.com''
          \<lparr>in_email = JStr ''a@b.com'', in_amount = JNum 500, in_description = JUndefined\<rparr> ''t1''
          [''domain:example.com'' \<mapsto> SNum NaN]) (storage_key ''example.com'')
       = Some (SOffers [\<lparr>email = JStr ''a@b.com'', amount = JNum 500, description = JUndefined,
                          timestamp = ''t1''\<rparr>])
   \<and> [''domain:example.com'' \<mapsto>
         SOffers [\<lparr>email = JStr ''a@b.com'', amount = JNum 500, description = JUndefined,
                    timestamp = ''t1''\<rparr>]] (storage_key ''example.com'')
       = Some (SOffers [\<lparr>email = JStr ''a@b.com'', amount = JNum 500, description = JUndefined,
                    timestamp = ''t1''\<rparr>])
   \<and> snd (trackDomainRequest ''example.com'' ''t2''
          [''domain:example.com'' \<mapsto>
             SOffers [\<lparr>email = JStr ''a@b.com'', amount = JNum 500, description = JUndefined,
                        timestamp = ''t1''\<rparr>]]) (storage_key ''example.com'')
       = Some (SNum NaN)"
proof -
  let ?o = "\<lparr>in_email = JStr ''a@b.com'', in_amount = JNum 500, in_description = JUndefined\<rparr>"
  let ?s = "[''domain:other.org'' \<mapsto> SNum (Count 3), ''domain:example.com'' \<mapsto> SNum (Count (Suc 1))]"
  let ?x = "\<lparr>email = JStr ''a@b.com'', amount = JNum 500, description = JUndefined,
                        timestamp = ''t1''\<rparr>"
  have other: "''domain:other.org'' \<noteq> storage_key ''example.com''"
    by (simp add: storage_key_def)
  have counter: "?s (storage_key ''example.com'') = Some (SNum (Count (Suc 1)))"
    by (simp add: storage_key_def)
  have nan: "[''domain:example.com'' \<mapsto> SNum NaN] (storage_key ''example.com'') = Some (SNum NaN)"
    by (simp add: storage_key_def)
  have offers: "[''domain:example.com'' \<mapsto> SOffers [?x]] (storage_key ''example.com'')
      = Some (SOffers [?x])"
    by (simp add: storage_key_def)
  note a = one_key_for_counter_and_offers
    [where d = "''example.com''" and k = "''domain:other.org''" and s = ?s and offer = ?o
       and now = "''t1''" and n = 1]
  note b = one_key_for_counter_and_offers
    [where d = "''example.com''" and s = "[''domain:example.com'' \<mapsto> SNum NaN]" and offer = ?o
       and now = "''t1''"]
  note c = one_key_for_counter_and_offers
    [where d = "''example.com''" and s = "[''domain:example.com'' \<mapsto> SOffers [?x]]"
       and now = "''t2''" and xs = "[?x]"]
  have same: "?s (storage_key ''example.com'')
      = [''domain:example.com'' \<mapsto> SNum (Count (Suc 1))] (storage_key ''example.com'')"
    by (simp add: storage_key_def)
  note reads = one_key_for_counter_and_offers
    [where d = "''example.com''" and s = ?s
       and s' = "[''domain:example.com'' \<mapsto> SNum (Count (Suc 1))]",
     THEN conjunct2, THEN conjunct2, THEN conjunct1, THEN mp, OF same,
     THEN conjunct2, THEN conjunct1]
  note frame = a [THEN conjunct2, THEN conjunct1, THEN mp, OF other]
  note throws = a [THEN conjunct2, THEN conjunct2, THEN conjunct2, THEN conjunct2,
      THEN conjunct1, THEN mp, OF counter]
  note falsy = b [THEN conjunct2, THEN conjunct2, THEN conjunct2, THEN conjunct2,
      THEN conjunct2, THEN conjunct1, THEN mp, OF disjI1, OF nan]
  note overwritten = c [THEN conjunct2, THEN conjunct2, THEN conjunct2, THEN conjunct2,
      THEN conjunct2, THEN conjunct2, THEN mp, OF offers]
  have 1: "snd (submitDomainOffer ''example.com'' ?o ''t1'' ?s) ''domain:other.org'' = Some (SNum (Count 3))"
    using frame by simp
  have 2: "submitDomainOffer ''example.com'' ?o ''t1'' ?s = (Inl TypeError, ?s)"
    by (rule throws)
  have 3: "snd (submitDomainOffer ''example.com'' ?o ''t1'' [''domain:example.com'' \<mapsto> SNum NaN])
       (storage_key ''example.com'') = Some (SOffers [?x])"
    using falsy by (simp add: new_offer_def)
  have 4: "snd (trackDomainRequest ''example.com'' ''t2'' [''domain:example.com'' \<mapsto> SOffers [?x]])
       (storage_key ''example.com'') = Some (SNum NaN)"
    using overwritten by simp
  from other counter same reads nan offers 1 2 3 4 show ?thesis by blast
qed

text \<open>
  C2 as stated fails: after one trackDomainRequest for example.com, a submitDomainOffer
  for example.com throws, and the key still holds the counter 1.
\<close>

theorem submit_on_counter_throws:
  "fst (submitDomainOffer ''example.com''
          \<lparr>in_email = JStr ''a@b.com'', in_amount = JNum 500, in_description = JUndefined\<rparr> ''t1''
          (snd (trackDomainRequest ''example.com'' ''t0'' Map.empty)))
     = Inl TypeError
   \<and> snd (submitDomainOffer ''example.com''
          \<lparr>in_email = JStr ''a@b.com'', in_amount = JNum 500, in_description = JUndefined\<rparr> ''t1''
          (snd (trackDomainRequest ''example.com'' ''t0'' Map.empty)))
        (storage_key ''example.com'')
     = Some (SNum (Count 1))"
  by (simp add: submitDomainOffer_def trackDomainRequest_def storage_get_def storage_put_def
      or_default_def MAX_EXACT_def Let_def)

section \<open>Properties of the fetch handler\<close>

subsection \<open>The pieces of the Authorization header\<close>

text \<open>
  The second piece of the split is \<open>between_spaces\<close> of the header, for a header
  that starts with \<^verbatim>\<open>Bearer \<close>; so the test of the handler is the test that
  the specification words describe.
\<close>

lemma js_split_not_Nil: "js_split sep s \<noteq> []"
  by (induction s) (auto split: list.split)

lemma js_split_Cons:
  "js_split sep (c # cs) =
     (if c = sep then [] # js_split sep cs
      else (c # hd (js_split sep cs)) # tl (js_split sep cs))"
  using js_split_not_Nil [of sep cs] by (cases "js_split sep cs") auto

lemma hd_js_split: "hd (js_split sep s) = takeWhile (\<lambda>c. c \<noteq> sep) s"
  by (induction s) (auto simp: js_split_Cons simp del: js_split.simps(2))

lemma Bearer_prefix:
  assumes "take 7 h = ''Bearer ''"
  obtains rest where "h = ''Bearer '' @ rest"
  using assms append_take_drop_id [of 7 h] by metis

lemma second_piece:
  "take 7 h = ''Bearer '' \<Longrightarrow>
   element_at (js_split CHR '' '' h) 1 = Some (between_spaces h)"
proof -
  assume "take 7 h = ''Bearer ''"
  then obtain rest where h: "h = ''Bearer '' @ rest" by (rule Bearer_prefix)
  have pieces: "js_split CHR '' '' h = ''Bearer'' # js_split CHR '' '' rest"
    unfolding h by (simp add: js_split_Cons del: js_split.simps(2))
  have "between_spaces h = hd (js_split CHR '' '' rest)"
    unfolding h by (simp add: between_spaces_def hd_js_split)
  then show ?thesis
    using js_split_not_Nil [of "CHR '' ''" rest]
    by (cases "js_split CHR '' '' rest") (simp_all add: pieces element_at_def)
qed

lemma startsWith_Bearer: "startsWith h ''Bearer '' = (take 7 h = ''Bearer '')"
proof -
  have "length ''Bearer '' = 7" by simp
  then show ?thesis unfolding startsWith_def by (simp only:)
qed

lemma authorized_iff:
  "(\<not> unauthorized e a) =
     (\<exists>h. a = Some h \<and> take 7 h = ''Bearer '' \<and> between_spaces h = AUTH_TOKEN e)"
proof (cases a)
  case None
  then show ?thesis by (simp add: unauthorized_def)
next
  case (Some h)
  show ?thesis
  proof (cases "take 7 h = ''Bearer ''")
    case True
    then have "h \<noteq> []" by auto
    with True Some show ?thesis
      by (simp add: unauthorized_def startsWith_Bearer second_piece del: One_nat_def)
  next
    case False
    with Some show ?thesis by (simp add: unauthorized_def startsWith_Bearer)
  qed
qed

subsection \<open>The status 401\<close>

lemma fetch_unauthorized:
  "req_method r \<noteq> ''OPTIONS'' \<Longrightarrow> unauthorized e (req_authorization r) \<Longrightarrow>
   fetch e now r w = (unauthorized_response, w)"
  by (simp add: fetch_def)

lemma post_offer_status: "status (fst (post_offer d now r w)) \<noteq> 401"
  by (simp add: post_offer_def fields_required_response_def invalid_body_response_def
      split: option.split sum.split prod.split)

lemma fetch_authorized_status:
  "\<not> unauthorized e (req_authorization r) \<Longrightarrow> status (fst (fetch e now r w)) \<noteq> 401"
  by (simp add: fetch_def post_offer_status domain_required_response_def
      split: option.split prod.split)

subsection \<open>Preflight\<close>

text \<open>
  C8. Every OPTIONS request, whatever its Authorization header and its domain parameter,
  receives status 200 with an empty body and the CORS headers, and the world (the
  storages and the list of calls to objects) is as before.
\<close>

theorem options_preflight:
  "req_method r = ''OPTIONS'' \<Longrightarrow>
   fetch e now r w = (\<lparr>status = 200, body = NullBody, headers = corsHeaders\<rparr>, w)"
  by (simp add: fetch_def)

text \<open>An OPTIONS request without header or domain, and one with both.\<close>

theorem options_preflight_witness:
  "req_method \<lparr>req_method = ''OPTIONS'', req_authorization = None,
                req_domain = None, req_json = None\<rparr> = ''OPTIONS''
   \<and> fetch wrangler_env ''t1''
        \<lparr>req_method = ''OPTIONS'', req_authorization = None, req_domain = None, req_json = None\<rparr>
        empty_world
     = (\<lparr>status = 200, body = NullBody,
         headers = [(''Access-Control-Allow-Origin'', ''https://agi-2025.com''),
                    (''Access-Control-Allow-Methods'', ''GET,HEAD,POST,OPTIONS''),
                    (''Access-Control-Allow-Headers'', ''Content-Type,Authorization''),
                    (''Access-Control-Max-Age'', ''86400'')]\<rparr>, empty_world)
   \<and> fetch wrangler_env ''t1''
        \<lparr>req_method = ''OPTIONS'', req_authorization = Some ''Bearer YELLOW_BEAR_SUN'',
          req_domain = Some ''example.com'', req_json = Some JNull\<rparr>
        empty_world
     = (\<lparr>status = 200, body = NullBody, headers = corsHeaders\<rparr>, empty_world)"
  using options_preflight [of "\<lparr>req_method = ''OPTIONS'', req_authorization = None,
                req_domain = None, req_json = None\<rparr>" wrangler_env "''t1''" empty_world]
    options_preflight [of "\<lparr>req_method = ''OPTIONS'',
          req_authorization = Some ''Bearer YELLOW_BEAR_SUN'',
          req_domain = Some ''example.com'', req_json = Some JNull\<rparr>" wrangler_env "''t1''" empty_world]
  by (simp add: corsHeaders_def)

subsection \<open>Authorization\<close>

text \<open>
  C4. For every request whose method is not OPTIONS: if the Authorization header is
  missing, or its bearer token is not the configured secret (compared as strings), the
  handler returns status 401 with body "Unauthorized", whatever the method, the body
  and the domain parameter are, and the world is as before: no object was called.
\<close>

theorem unauthorized_requests_get_401:
  assumes "req_method r \<noteq> ''OPTIONS''"
    and "req_authorization r = None
         \<or> (\<exists>h. req_authorization r = Some h \<and> bearer_token h \<noteq> Some (AUTH_TOKEN e))"
  shows "fetch e now r w =
           (\<lparr>status = 401, body = TextBody ''Unauthorized'', headers = jsonHeaders\<rparr>, w)"
proof -
  have "\<not> (\<exists>h. req_authorization r = Some h \<and> take 7 h = ''Bearer ''
              \<and> between_spaces h = AUTH_TOKEN e)"
    using assms(2) by (auto simp: bearer_token_def)
  then have "unauthorized e (req_authorization r)"
    using authorized_iff [of e "req_authorization r"] by blast
  with assms(1) show ?thesis
    by (simp add: fetch_unauthorized unauthorized_response_def)
qed

text \<open>A well-formed POST with a wrong token.\<close>

theorem unauthorized_requests_get_401_witness:
  "req_method \<lparr>req_method = ''POST'', req_authorization = Some ''Bearer YELLOW_BEAR_MOON'',
       req_domain = Some ''example.com'',
       req_json = Some (JObj [(''email'', JStr ''a@b.com''), (''amount'', JNum 500)])\<rparr> \<noteq> ''OPTIONS''
   \<and> req_authorization \<lparr>req_method = ''POST'', req_authorization = Some ''Bearer YELLOW_BEAR_MOON'',
       req_domain = Some ''example.com'',
       req_json = Some (JObj [(''email'', JStr ''a@b.com''), (''amount'', JNum 500)])\<rparr>
       = Some ''Bearer YELLOW_BEAR_MOON''
   \<and> bearer_token ''Bearer YELLOW_BEAR_MOON'' \<noteq> Some (AUTH_TOKEN wrangler_env)
   \<and> fetch wrangler_env ''t1''
       \<lparr>req_method = ''POST'', req_authorization = Some ''Bearer YELLOW_BEAR_MOON'',
         req_domain = Some ''example.com'',
         req_json = Some (JObj [(''email'', JStr ''a@b.com''), (''amount'', JNum 500)])\<rparr>
       empty_world
     = (\<lparr>status = 401, body = TextBody ''Unauthorized'',
         headers = [(''Access-Control-Allow-Origin'', ''https://agi-2025.com''),
                    (''Access-Control-Allow-Methods'', ''GET,HEAD,POST,OPTIONS''),
                    (''Access-Control-Allow-Headers'', ''Content-Type,Authorization''),
                    (''Access-Control-Max-Age'', ''86400''),
                    (''Content-Type'', ''application/json'')]\<rparr>, empty_world)"
proof -
  let ?r = "\<lparr>req_method = ''POST'', req_authorization = Some ''Bearer YELLOW_BEAR_MOON'',
       req_domain = Some ''example.com'',
       req_json = Some (JObj [(''email'', JStr ''a@b.com''), (''amount'', JNum 500)])\<rparr>"
  have m: "req_method ?r \<noteq> ''OPTIONS''" by simp
  have a: "req_authorization ?r = Some ''Bearer YELLOW_BEAR_MOON''" by simp
  have t: "bearer_token ''Bearer YELLOW_BEAR_MOON'' \<noteq> Some (AUTH_TOKEN wrangler_env)"
    by (simp add: bearer_token_def between_spaces_def wrangler_env_def)
  from a t have h: "req_authorization ?r = None
         \<or> (\<exists>h. req_authorization ?r = Some h \<and> bearer_token h \<noteq> Some (AUTH_TOKEN wrangler_env))"
    by blast
  show ?thesis
    using m a t unauthorized_requests_get_401 [OF m h, of "''t1''" empty_world]
    by (simp add: jsonHeaders_def corsHeaders_def)
qed

text \<open>A piece ends at the first separator.\<close>

lemma takeWhile_until:
  "sep \<notin> set tok \<Longrightarrow> takeWhile (\<lambda>c. c \<noteq> sep) (tok @ sep # rest) = tok"
  by (induction tok) auto

text \<open>
  C10. A request whose method is not OPTIONS passes the authorization check (its status
  is not 401) if and only if its Authorization header starts with "Bearer " and what
  stands between the first space and the second space, or the end of the header, is the
  configured secret; in particular a header "Bearer <secret> <anything>", with the
  secret as its token (a token holds no space), passes.
\<close>

theorem authorization_by_second_piece:
  "(req_method r \<noteq> ''OPTIONS'' \<longrightarrow>
      (status (fst (fetch e now r w)) \<noteq> 401) =
      (\<exists>h rest. req_authorization r = Some h \<and> h = ''Bearer '' @ rest
                 \<and> between_spaces h = AUTH_TOKEN e))
   \<and> (req_method r \<noteq> ''OPTIONS'' \<and> CHR '' '' \<notin> set (AUTH_TOKEN e)
        \<and> req_authorization r = Some (''Bearer '' @ AUTH_TOKEN e @ '' '' @ anything) \<longrightarrow>
      status (fst (fetch e now r w)) \<noteq> 401)"
proof -
  have prefix: "(take 7 h = ''Bearer '') = (\<exists>rest. h = ''Bearer '' @ rest)" for h
  proof
    assume "take 7 h = ''Bearer ''"
    then show "\<exists>rest. h = ''Bearer '' @ rest" by (metis Bearer_prefix)
  next
    assume "\<exists>rest. h = ''Bearer '' @ rest"
    then show "take 7 h = ''Bearer ''" by auto
  qed
  have passes: "(status (fst (fetch e now r w)) \<noteq> 401) = (\<not> unauthorized e (req_authorization r))"
    if "req_method r \<noteq> ''OPTIONS''"
  proof (cases "unauthorized e (req_authorization r)")
    case True
    with that show ?thesis
      by (simp add: fetch_unauthorized unauthorized_response_def)
  next
    case False
    then show ?thesis by (simp add: fetch_authorized_status)
  qed
  have first: "req_method r \<noteq> ''OPTIONS'' \<longrightarrow>
      (status (fst (fetch e now r w)) \<noteq> 401) =
      (\<exists>h rest. req_authorization r = Some h \<and> h = ''Bearer '' @ rest
                 \<and> between_spaces h = AUTH_TOKEN e)"
    using passes authorized_iff [of e "req_authorization r"] prefix by auto
  have trailing: "between_spaces (''Bearer '' @ tok @ '' '' @ anything) = tok"
    if "CHR '' '' \<notin> set tok" for tok
    using that by (simp add: between_spaces_def takeWhile_until)
  have second: "req_method r \<noteq> ''OPTIONS'' \<and> CHR '' '' \<notin> set (AUTH_TOKEN e)
        \<and> req_authorization r = Some (''Bearer '' @ AUTH_TOKEN e @ '' '' @ anything) \<longrightarrow>
      status (fst (fetch e now r w)) \<noteq> 401"
    using first trailing [of "AUTH_TOKEN e"] by auto
  from first second show ?thesis by blast
qed

lemma bearer_token_authorized:
  "req_authorization r = Some h \<Longrightarrow> bearer_token h = Some (AUTH_TOKEN e) \<Longrightarrow>
   \<not> unauthorized e (req_authorization r)"
  unfolding authorized_iff by (auto simp: bearer_token_def split: if_splits)

text \<open>The configured secret, followed by a space and more.\<close>

theorem authorization_by_second_piece_witness:
  "req_method \<lparr>req_method = ''GET'',
       req_authorization = Some (''Bearer '' @ AUTH_TOKEN wrangler_env @ '' '' @ ''and more''),
       req_domain = Some ''example.com'', req_json = None\<rparr> \<noteq> ''OPTIONS''
   \<and> CHR '' '' \<notin> set (AUTH_TOKEN wrangler_env)
   \<and> ''Bearer '' @ AUTH_TOKEN wrangler_env @ '' '' @ ''and more''
       = ''Bearer YELLOW_BEAR_SUN and more''
   \<and> status (fst (fetch wrangler_env ''t1''
       \<lparr>req_method = ''GET'',
         req_authorization = Some (''Bearer '' @ AUTH_TOKEN wrangler_env @ '' '' @ ''and more''),
         req_domain = Some ''example.com'', req_json = None\<rparr> empty_world)) \<noteq> 401"
proof -
  let ?r = "\<lparr>req_method = ''GET'',
       req_authorization = Some (''Bearer '' @ AUTH_TOKEN wrangler_env @ '' '' @ ''and more''),
       req_domain = Some ''example.com'', req_json = None\<rparr>"
  have m: "req_method ?r \<noteq> ''OPTIONS''" by simp
  have s: "CHR '' '' \<notin> set (AUTH_TOKEN wrangler_env)" by (simp add: wrangler_env_def)
  have a: "req_authorization ?r = Some (''Bearer '' @ AUTH_TOKEN wrangler_env @ '' '' @ ''and more'')"
    by simp
  have h: "''Bearer '' @ AUTH_TOKEN wrangler_env @ '' '' @ ''and more''
       = ''Bearer YELLOW_BEAR_SUN and more''"
    by (simp add: wrangler_env_def)
  note second = authorization_by_second_piece
    [where r = ?r and e = wrangler_env and anything = "''and more''" and now = "''t1''"
       and w = empty_world, THEN conjunct2, THEN mp]
  have "status (fst (fetch wrangler_env ''t1'' ?r empty_world)) \<noteq> 401"
    using m s a by (intro second conjI)
  with m s h show ?thesis by blast
qed

subsection \<open>Listing offers\<close>

text \<open>
  C7. For every authorized request whose method is neither OPTIONS nor POST, with a
  non-empty domain parameter: the handler makes one call, getDomainOffers for that
  domain on the object named "domain-offers:<domain>", and returns status 200 with the
  JSON of {domain, offers}, where offers is what getDomainOffers returns: the offer
  list stored in that object under the key "domain:<domain>", and the empty list when
  the key is absent. The storages are as before.
\<close>

theorem reads_list_offers:
  assumes "req_method r \<noteq> ''OPTIONS''" and "req_method r \<noteq> ''POST''"
    and "req_authorization r = Some h" and "bearer_token h = Some (AUTH_TOKEN e)"
    and "req_domain r = Some d" and "d \<noteq> []"
  shows "fetch e now r w =
           (\<lparr>status = 200,
             body = JsonBody (OffersPayload d (fst (getDomainOffers d (stores w (''domain-offers:'' @ d))))),
             headers = jsonHeaders\<rparr>,
            w\<lparr>calls := calls w @ [GetDomainOffers (''domain-offers:'' @ d) d]\<rparr>)
       \<and> (stores w (''domain-offers:'' @ d) (''domain:'' @ d) = None \<longrightarrow>
            fst (getDomainOffers d (stores w (''domain-offers:'' @ d))) = SOffers [])
       \<and> (stores w (''domain-offers:'' @ d) (''domain:'' @ d) = Some (SOffers xs) \<longrightarrow>
            fst (getDomainOffers d (stores w (''domain-offers:'' @ d))) = SOffers xs)"
proof -
  have auth: "\<not> unauthorized e (req_authorization r)"
    using assms(3,4) by (rule bearer_token_authorized)
  have call: "stub_getDomainOffers name d w =
      (fst (getDomainOffers d (stores w name)),
       w\<lparr>calls := calls w @ [GetDomainOffers name d]\<rparr>)" for name
    by (simp add: stub_getDomainOffers_def getDomainOffers_def storage_get_def)
  have target: "idFromName d = ''domain-offers:'' @ d"
    by (simp add: idFromName_def)
  have key: "storage_key d = ''domain:'' @ d"
    by (simp add: storage_key_def)
  have response: "fetch e now r w =
           (\<lparr>status = 200,
             body = JsonBody (OffersPayload d (fst (getDomainOffers d (stores w (''domain-offers:'' @ d))))),
             headers = jsonHeaders\<rparr>,
            w\<lparr>calls := calls w @ [GetDomainOffers (''domain-offers:'' @ d) d]\<rparr>)"
    using assms(1,2,5,6) auth call [of "idFromName d"] unfolding target
    by (simp add: fetch_def target)
  have absent: "stores w (''domain-offers:'' @ d) (''domain:'' @ d) = None \<longrightarrow>
            fst (getDomainOffers d (stores w (''domain-offers:'' @ d))) = SOffers []"
    by (simp add: getDomainOffers_value key or_default_def)
  have present: "stores w (''domain-offers:'' @ d) (''domain:'' @ d) = Some (SOffers xs) \<longrightarrow>
            fst (getDomainOffers d (stores w (''domain-offers:'' @ d))) = SOffers xs"
    by (simp add: getDomainOffers_value key or_default_def)
  from response absent present show ?thesis by blast
qed

text \<open>A GET on a domain with one stored offer, and a HEAD on a domain with none.\<close>

theorem reads_list_offers_witness:
  "req_method \<lparr>req_method = ''GET'', req_authorization = Some ''Bearer YELLOW_BEAR_SUN'',
       req_domain = Some ''example.com'', req_json = None\<rparr> \<noteq> ''OPTIONS''
   \<and> req_method \<lparr>req_method = ''GET'', req_authorization = Some ''Bearer YELLOW_BEAR_SUN'',
       req_domain = Some ''example.com'', req_json = None\<rparr> \<noteq> ''POST''
   \<and> bearer_token ''Bearer YELLOW_BEAR_SUN'' = Some (AUTH_TOKEN wrangler_env)
   \<and> ''example.com'' \<noteq> []
   \<and> fst (fetch wrangler_env ''t2''
        \<lparr>req_method = ''GET'', req_authorization = Some ''Bearer YELLOW_BEAR_SUN'',
          req_domain = Some ''example.com'', req_json = None\<rparr>
        \<lparr>stores = (\<lambda>name. Map.empty)
           (''domain-offers:example.com'' :=
              [''domain:example.com'' \<mapsto>
                 SOffers [\<lparr>email = JStr ''a@b.com'', amount = JNum 500,
                            description = JUndefined, timestamp = ''t1''\<rparr>]]),
          calls = []\<rparr>)
     = \<lparr>status = 200,
        body = JsonBody (OffersPayload ''example.com''
                 (SOffers [\<lparr>email = JStr ''a@b.com'', amount = JNum 500,
                             description = JUndefined, timestamp = ''t1''\<rparr>])),
        headers = jsonHeaders\<rparr>
   \<and> calls (snd (fetch wrangler_env ''t2''
        \<lparr>req_method = ''GET'', req_authorization = Some ''Bearer YELLOW_BEAR_SUN'',
          req_domain = Some ''example.com'', req_json = None\<rparr>
        \<lparr>stores = (\<lambda>name. Map.empty)
           (''domain-offers:example.com'' :=
              [''domain:example.com'' \<mapsto>
                 SOffers [\<lparr>email = JStr ''a@b.com'', amount = JNum 500,
                            description = JUndefined, timestamp = ''t1''\<rparr>]]),
          calls = []\<rparr>))
     = [GetDomainOffers ''domain-offers:example.com'' ''example.com'']
   \<and> fst (fetch wrangler_env ''t2''
        \<lparr>req_method = ''HEAD'', req_authorization = Some ''Bearer YELLOW_BEAR_SUN'',
          req_domain = Some ''example.com'', req_json = None\<rparr> empty_world)
     = \<lparr>status = 200, body = JsonBody (OffersPayload ''example.com'' (SOffers [])),
        headers = jsonHeaders\<rparr>"
proof -
  let ?r = "\<lparr>req_method = ''GET'', req_authorization = Some ''Bearer YELLOW_BEAR_SUN'',
       req_domain = Some ''example.com'', req_json = None\<rparr>"
  let ?r' = "\<lparr>req_method = ''HEAD'', req_authorization = Some ''Bearer YELLOW_BEAR_SUN'',
       req_domain = Some ''example.com'', req_json = None\<rparr>"
  let ?x = "\<lparr>email = JStr ''a@b.com'', amount = JNum 500,
                            description = JUndefined, timestamp = ''t1''\<rparr>"
  let ?w = "\<lparr>stores = (\<lambda>name. Map.empty)
           (''domain-offers:example.com'' := [''domain:example.com'' \<mapsto> SOffers [?x]]),
          calls = []\<rparr>"
  have m1: "req_method ?r \<noteq> ''OPTIONS''" and m2: "req_method ?r \<noteq> ''POST''"
    and m1': "req_method ?r' \<noteq> ''OPTIONS''" and m2': "req_method ?r' \<noteq> ''POST''"
    by simp_all
  have a: "req_authorization ?r = Some ''Bearer YELLOW_BEAR_SUN''"
    and a': "req_authorization ?r' = Some ''Bearer YELLOW_BEAR_SUN''"
    by simp_all
  have t: "bearer_token ''Bearer YELLOW_BEAR_SUN'' = Some (AUTH_TOKEN wrangler_env)"
    by (simp add: bearer_token_def between_spaces_def wrangler_env_def)
  have d: "req_domain ?r = Some ''example.com''" and d': "req_domain ?r' = Some ''example.com''"
    by simp_all
  have n: "''example.com'' \<noteq> []" by simp
  have stored: "stores ?w (''domain-offers:'' @ ''example.com'') (''domain:'' @ ''example.com'')
      = Some (SOffers [?x])"
    by simp
  have absent: "stores empty_world (''domain-offers:'' @ ''example.com'') (''domain:'' @ ''example.com'') = None"
    by (simp add: empty_world_def)
  note one = reads_list_offers [OF m1 m2 a t d n, where now = "''t2''" and w = ?w and xs = "[?x]"]
  note none = reads_list_offers [OF m1' m2' a' t d' n, where now = "''t2''" and w = empty_world]
  have 1: "fetch wrangler_env ''t2'' ?r ?w =
      (\<lparr>status = 200, body = JsonBody (OffersPayload ''example.com'' (SOffers [?x])),
        headers = jsonHeaders\<rparr>,
       ?w\<lparr>calls := calls ?w @ [GetDomainOffers (''domain-offers:'' @ ''example.com'') ''example.com'']\<rparr>)"
    using one [THEN conjunct1] one [THEN conjunct2, THEN conjunct2, THEN mp, OF stored]
    by (simp only:)
  have 2: "fetch wrangler_env ''t2'' ?r' empty_world =
      (\<lparr>status = 200, body = JsonBody (OffersPayload ''example.com'' (SOffers [])),
        headers = jsonHeaders\<rparr>,
       empty_world\<lparr>calls := calls empty_world
          @ [GetDomainOffers (''domain-offers:'' @ ''example.com'') ''example.com'']\<rparr>)"
    using none [THEN conjunct1] none [THEN conjunct2, THEN conjunct1, THEN mp, OF absent]
    by (simp only:)
  show ?thesis
    using m1 m2 t n by (simp add: 1 2)
qed

subsection \<open>Rejected submissions\<close>

text \<open>
  C6, amended. For every authorized POST request with a non-empty domain parameter: if
  the body is not JSON, or is the JSON value null, the handler returns 400 with body
  "Invalid request body"; if the parsed body can be destructured and its email or its
  amount is not truthy (a missing or empty email, a missing amount, amount = 0), it
  returns 400 with body "Email and amount are required"; in both cases the world is as
  before: no object was called and no storage changed.
\<close>

theorem rejected_posts:
  assumes "req_method r = ''POST''"
    and "req_authorization r = Some h" and "bearer_token h = Some (AUTH_TOKEN e)"
    and "req_domain r = Some d" and "d \<noteq> []"
  shows "(req_json r = None \<or> req_json r = Some JNull \<longrightarrow>
            fetch e now r w =
              (\<lparr>status = 400, body = TextBody ''Invalid request body'', headers = corsHeaders\<rparr>, w))
       \<and> (req_json r = Some v \<and> destructure_body v = Inr (em, am, de)
            \<and> (\<not> truthy em \<or> \<not> truthy am) \<longrightarrow>
            fetch e now r w =
              (\<lparr>status = 400, body = TextBody ''Email and amount are required'',
                headers = corsHeaders\<rparr>, w))
       \<and> \<not> truthy (JNum 0) \<and> \<not> truthy (JStr []) \<and> \<not> truthy JUndefined"
proof -
  have auth: "\<not> unauthorized e (req_authorization r)"
    using assms(2,3) by (rule bearer_token_authorized)
  have post: "fetch e now r w = post_offer d now r w"
    using assms(1,4,5) auth by (simp add: fetch_def)
  have invalid: "req_json r = None \<or> req_json r = Some JNull \<longrightarrow>
            fetch e now r w =
              (\<lparr>status = 400, body = TextBody ''Invalid request body'', headers = corsHeaders\<rparr>, w)"
    unfolding post by (auto simp: post_offer_def invalid_body_response_def)
  have required: "req_json r = Some v \<and> destructure_body v = Inr (em, am, de)
            \<and> (\<not> truthy em \<or> \<not> truthy am) \<longrightarrow>
            fetch e now r w =
              (\<lparr>status = 400, body = TextBody ''Email and amount are required'',
                headers = corsHeaders\<rparr>, w)"
    unfolding post by (auto simp: post_offer_def fields_required_response_def)
  from invalid required show ?thesis by simp
qed

text \<open>A body that is not JSON, the body {}, and a body with amount 0.\<close>

theorem rejected_posts_witness:
  "req_method \<lparr>req_method = ''POST'', req_authorization = Some ''Bearer YELLOW_BEAR_SUN'',
       req_domain = Some ''example.com'', req_json = None\<rparr> = ''POST''
   \<and> bearer_token ''Bearer YELLOW_BEAR_SUN'' = Some (AUTH_TOKEN wrangler_env)
   \<and> ''example.com'' \<noteq> []
   \<and> fetch wrangler_env ''t1''
        \<lparr>req_method = ''POST'', req_authorization = Some ''Bearer YELLOW_BEAR_SUN'',
          req_domain = Some ''example.com'', req_json = None\<rparr> empty_world
     = (\<lparr>status = 400, body = TextBody ''Invalid request body'', headers = corsHeaders\<rparr>,
        empty_world)
   \<and> destructure_body (JObj []) = Inr (JUndefined, JUndefined, JUndefined)
   \<and> fetch wrangler_env ''t1''
        \<lparr>req_method = ''POST'', req_authorization = Some ''Bearer YELLOW_BEAR_SUN'',
          req_domain = Some ''example.com'', req_json = Some (JObj [])\<rparr> empty_world
     = (\<lparr>status = 400, body = TextBody ''Email and amount are required'',
         headers = corsHeaders\<rparr>, empty_world)
   \<and> destructure_body (JObj [(''email'', JStr ''a@b.com''), (''amount'', JNum 0)])
     = Inr (JStr ''a@b.com'', JNum 0, JUndefined)
   \<and> fetch wrangler_env ''t1''
        \<lparr>req_method = ''POST'', req_authorization = Some ''Bearer YELLOW_BEAR_SUN'',
          req_domain = Some ''example.com'',
          req_json = Some (JObj [(''email'', JStr ''a@b.com''), (''amount'', JNum 0)])\<rparr> empty_world
     = (\<lparr>status = 400, body = TextBody ''Email and amount are required'',
         headers = corsHeaders\<rparr>, empty_world)"
proof -
  let ?none = "\<lparr>req_method = ''POST'', req_authorization = Some ''Bearer YELLOW_BEAR_SUN'',
       req_domain = Some ''example.com'', req_json = None\<rparr>"
  let ?empty = "\<lparr>req_method = ''POST'', req_authorization = Some ''Bearer YELLOW_BEAR_SUN'',
       req_domain = Some ''example.com'', req_json = Some (JObj [])\<rparr>"
  let ?zero = "\<lparr>req_method = ''POST'', req_authorization = Some ''Bearer YELLOW_BEAR_SUN'',
       req_domain = Some ''example.com'',
       req_json = Some (JObj [(''email'', JStr ''a@b.com''), (''amount'', JNum 0)])\<rparr>"
  have t: "bearer_token ''Bearer YELLOW_BEAR_SUN'' = Some (AUTH_TOKEN wrangler_env)"
    by (simp add: bearer_token_def between_spaces_def wrangler_env_def)
  have n: "''example.com'' \<noteq> []" by simp
  have m: "req_method ?none = ''POST''" "req_method ?empty = ''POST''" "req_method ?zero = ''POST''"
    by simp_all
  have a: "req_authorization ?none = Some ''Bearer YELLOW_BEAR_SUN''"
    "req_authorization ?empty = Some ''Bearer YELLOW_BEAR_SUN''"
    "req_authorization ?zero = Some ''Bearer YELLOW_BEAR_SUN''"
    by simp_all
  have d: "req_domain ?none = Some ''example.com''" "req_domain ?empty = Some ''example.com''"
    "req_domain ?zero = Some ''example.com''"
    by simp_all
  have de: "destructure_body (JObj []) = Inr (JUndefined, JUndefined, JUndefined)"
    by (simp add: get_property_def)
  have dz: "destructure_body (JObj [(''email'', JStr ''a@b.com''), (''amount'', JNum 0)])
     = Inr (JStr ''a@b.com'', JNum 0, JUndefined)"
    by (simp add: get_property_def)
  have 1: "fetch wrangler_env ''t1'' ?none empty_world
     = (\<lparr>status = 400, body = TextBody ''Invalid request body'', headers = corsHeaders\<rparr>,
        empty_world)"
    using rejected_posts [OF m(1) a(1) t d(1) n, where now = "''t1''" and w = empty_world,
        THEN conjunct1]
    by simp
  have 2: "fetch wrangler_env ''t1'' ?empty empty_world
     = (\<lparr>status = 400, body = TextBody ''Email and amount are required'',
         headers = corsHeaders\<rparr>, empty_world)"
    using rejected_posts [OF m(2) a(2) t d(2) n, where now = "''t1''" and w = empty_world
        and v = "JObj []" and em = JUndefined and am = JUndefined and de = JUndefined,
        THEN conjunct2, THEN conjunct1] de
    by simp
  have 3: "fetch wrangler_env ''t1'' ?zero empty_world
     = (\<lparr>status = 400, body = TextBody ''Email and amount are required'',
         headers = corsHeaders\<rparr>, empty_world)"
    using rejected_posts [OF m(3) a(3) t d(3) n, where now = "''t1''" and w = empty_world
        and v = "JObj [(''email'', JStr ''a@b.com''), (''amount'', JNum 0)]"
        and em = "JStr ''a@b.com''" and am = "JNum 0" and de = JUndefined,
        THEN conjunct2, THEN conjunct1] dz
    by simp
  from m(1) t n 1 de 2 dz 3 show ?thesis by blast
qed

subsection \<open>Concrete requests\<close>

lemma sun_is_authorized: "\<not> unauthorized wrangler_env (Some ''Bearer YELLOW_BEAR_SUN'')"
  unfolding authorized_iff by (simp add: between_spaces_def wrangler_env_def)

text \<open>
  C6 as stated fails at the body null: it parses, it has no email, and the answer is
  "Invalid request body", since destructuring null throws inside the try block. It
  also fails for a domain parameter that is present and empty
  (\<^verbatim>\<open>?domain=\<close>): the answer to the body {} is then "Domain parameter is
  required".
\<close>

theorem null_body_is_invalid:
  "fetch wrangler_env ''t1''
     \<lparr>req_method = ''POST'', req_authorization = Some ''Bearer YELLOW_BEAR_SUN'',
       req_domain = Some ''example.com'', req_json = Some JNull\<rparr> empty_world
   = (\<lparr>status = 400, body = TextBody ''Invalid request body'', headers = corsHeaders\<rparr>,
      empty_world)
   \<and> body (fst (fetch wrangler_env ''t1''
     \<lparr>req_method = ''POST'', req_authorization = Some ''Bearer YELLOW_BEAR_SUN'',
       req_domain = Some ''example.com'', req_json = Some JNull\<rparr> empty_world))
     \<noteq> TextBody ''Email and amount are required''
   \<and> fetch wrangler_env ''t1''
     \<lparr>req_method = ''POST'', req_authorization = Some ''Bearer YELLOW_BEAR_SUN'',
       req_domain = Some [], req_json = Some (JObj [])\<rparr> empty_world
   = (\<lparr>status = 400, body = TextBody ''Domain parameter is required'', headers = []\<rparr>,
      empty_world)"
  by (simp add: fetch_def sun_is_authorized post_offer_def invalid_body_response_def
      domain_required_response_def)

text \<open>
  C3. Every error response of the handler is to carry the CORS headers. The responses
  401, 400 "Email and amount are required" and 400 "Invalid request body" do; the
  response 400 "Domain parameter is required" is built without headers. Here the
  handler is run on an authorized GET without a domain parameter.
\<close>

theorem missing_domain_response_lacks_cors:
  "fetch wrangler_env ''t1''
     \<lparr>req_method = ''GET'', req_authorization = Some ''Bearer YELLOW_BEAR_SUN'',
       req_domain = None, req_json = None\<rparr> empty_world
   = (\<lparr>status = 400, body = TextBody ''Domain parameter is required'', headers = []\<rparr>,
      empty_world)
   \<and> map_of (headers (fst (fetch wrangler_env ''t1''
     \<lparr>req_method = ''GET'', req_authorization = Some ''Bearer YELLOW_BEAR_SUN'',
       req_domain = None, req_json = None\<rparr> empty_world))) ''Access-Control-Allow-Origin''
     = None"
  by (simp add: fetch_def sun_is_authorized domain_required_response_def)

text \<open>The headers of the four error responses.\<close>

lemma other_error_responses_carry_cors:
  "set corsHeaders \<subseteq> set (headers unauthorized_response)
   \<and> headers fields_required_response = corsHeaders
   \<and> headers invalid_body_response = corsHeaders
   \<and> headers domain_required_response = []"
  by (auto simp: unauthorized_response_def fields_required_response_def
      invalid_body_response_def domain_required_response_def jsonHeaders_def)

end
